theory Spec2Isabelle
  imports Main "HOL-Library.Word"
begin

section \<open>The driver boundary\<close>

text \<open>
  The wrapper layer sits on an opaque driver. Handles are opaque numbers, a device id is
  a C \<open>int\<close>, and a kernel attribute value is a 32-bit C \<open>int\<close> (the type
  \<open>cuFuncGetAttribute\<close> writes through its \<open>int*\<close> argument), read as two's complement with
  \<^const>\<open>sint\<close>.
\<close>

type_synonym id_t = int
type_synonym handle_t = nat
type_synonym attribute_value_t = "32 word"

text \<open>
  The status codes named by the sources (\<open>status::no_device\<close>,
  \<open>status::not_yet_implemented\<close>); every other non-success code is \<open>other_status n\<close>.
\<close>

datatype status_t = success | no_device | not_yet_implemented | other_status nat

text \<open>
  The three exception types thrown by the sources. A \<open>cuda::runtime_error\<close> carries the
  native status; its message text is not modelled. \<open>::std::invalid_argument\<close> and
  \<open>::std::logic_error\<close> carry their message.
\<close>

datatype error = invalid_argument string | logic_error string | runtime_error status_t

text \<open>
  What a call does: it returns a value, it throws, or (an exception leaving a
  \<open>noexcept\<close> function) the process terminates.
\<close>

datatype 'a outcome = Returns 'a | Throws error | Terminates

text \<open>The values of \<open>CUfunction_attribute\<close>, in the order of the table in \<open>attribute_name\<close>.\<close>

datatype attribute_t =
    CU_FUNC_ATTRIBUTE_MAX_THREADS_PER_BLOCK
  | CU_FUNC_ATTRIBUTE_SHARED_SIZE_BYTES
  | CU_FUNC_ATTRIBUTE_CONST_SIZE_BYTES
  | CU_FUNC_ATTRIBUTE_LOCAL_SIZE_BYTES
  | CU_FUNC_ATTRIBUTE_NUM_REGS
  | CU_FUNC_ATTRIBUTE_PTX_VERSION
  | CU_FUNC_ATTRIBUTE_BINARY_VERSION
  | CU_FUNC_ATTRIBUTE_CACHE_MODE_CA
  | CU_FUNC_ATTRIBUTE_MAX_DYNAMIC_SHARED_SIZE_BYTES
  | CU_FUNC_ATTRIBUTE_PREFERRED_SHARED_MEMORY_CARVEOUT

text \<open>
  The native calls the modelled functions make. Each call that reaches the driver is
  appended to the log \<open>issued\<close> of the world, so that "no driver call was made" is a
  statement about that log.
\<close>

datatype driver_call =
    CuFuncGetAttribute attribute_t handle_t
  | CudaFuncSetAttribute handle_t attribute_t attribute_value_t
  | CudaEventRecord handle_t handle_t
  | CudaGetDeviceCount
  | CudaOccupancyMaxPotentialBlockSizeVariableSMemWithFlags
      handle_t "64 word \<Rightarrow> 64 word" "32 word" bool
  | CudaLaunchKernel handle_t handle_t

text \<open>
  The world: the two ambient slots (current device, current context) and the log of
  native calls issued so far.
\<close>

record world =
  current_device :: id_t
  current_context :: handle_t
  issued :: "driver_call list"

text \<open>
  What the driver answers. The sources receive these answers from outside, so the
  driver is a parameter of every modelled function: an answer may depend on the
  arguments and on the world (the ambient device, the calls made before).
\<close>

record driver =
  cuFuncGetAttribute :: "attribute_t \<Rightarrow> handle_t \<Rightarrow> world \<Rightarrow> status_t \<times> attribute_value_t"
  cudaFuncSetAttribute :: "handle_t \<Rightarrow> attribute_t \<Rightarrow> attribute_value_t \<Rightarrow> world \<Rightarrow> status_t"
  cudaEventRecord :: "handle_t \<Rightarrow> handle_t \<Rightarrow> world \<Rightarrow> status_t"
  cudaGetDeviceCount :: "world \<Rightarrow> status_t \<times> int"
  cudaOccupancyMaxPotentialBlockSizeVariableSMemWithFlags ::
    "handle_t \<Rightarrow> (64 word \<Rightarrow> 64 word) \<Rightarrow> 32 word \<Rightarrow> bool \<Rightarrow> world \<Rightarrow> status_t \<times> 32 word \<times> 32 word"
  cudaLaunchKernel :: "handle_t \<Rightarrow> handle_t \<Rightarrow> world \<Rightarrow> status_t"

definition issue :: "driver_call \<Rightarrow> world \<Rightarrow> world" where
  "issue c w = w\<lparr>issued := issued w @ [c]\<rparr>"

text \<open>
  Modelled from the spec: \<open>throw_if_error\<close> (error.hpp is not among the sources), the
  narrow function that "translates a native status code into a typed failure": a
  non-success status is thrown as a \<open>cuda::runtime_error\<close> carrying the status.
\<close>

definition throw_if_error :: "status_t \<Rightarrow> unit outcome" where
  "throw_if_error result = (if result = success then Returns () else Throws (runtime_error result))"

text \<open>
  Sequencing: the continuation runs only when the first part returned; a throw or a
  termination ends the sequence there, as in the C++.
\<close>

definition and_then ::
    "'a outcome \<times> world \<Rightarrow> ('a \<Rightarrow> world \<Rightarrow> 'b outcome \<times> world) \<Rightarrow> 'b outcome \<times> world" where
  "and_then m f =
     (case m of
        (Returns x, w) \<Rightarrow> f x w
      | (Throws e, w) \<Rightarrow> (Throws e, w)
      | (Terminates, w) \<Rightarrow> (Terminates, w))"

text \<open>
  A function declared \<open>noexcept\<close>: an exception that would leave it calls
  \<open>std::terminate\<close> instead of reaching the caller.
\<close>

definition noexcept :: "'a outcome \<times> world \<Rightarrow> 'a outcome \<times> world" where
  "noexcept m = (case m of (Throws e, w) \<Rightarrow> (Terminates, w) | _ \<Rightarrow> m)"

section \<open>The ambient registry and its guards\<close>

text \<open>
  Modelled from the spec: \<open>device::current::detail_::scoped_override_t\<close> (current_device.hpp
  is not among the sources; only uses of the guard are). Section 4.2: the guard
  "remembers the prior value, sets the new value; on scope exit (guaranteed on every
  path, including when the guarded block raises) restores the prior value". The guarded
  region is the rest of the scope in which the guard object is declared. A process that
  terminated inside the region runs no destructor. Reading and writing the ambient slot
  is an operation of the registry and is not entered in the log of native calls.
\<close>

definition device_scoped_override ::
    "id_t \<Rightarrow> (world \<Rightarrow> 'a outcome \<times> world) \<Rightarrow> world \<Rightarrow> 'a outcome \<times> world" where
  "device_scoped_override new_device_id guarded w =
     (let previous_device_id = current_device w;
          (r, w') = guarded (w\<lparr>current_device := new_device_id\<rparr>)
      in case r of
           Terminates \<Rightarrow> (Terminates, w')
         | _ \<Rightarrow> (r, w'\<lparr>current_device := previous_device_id\<rparr>))"

text \<open>
  Modelled from the spec: \<open>context::current::detail_::scoped_override_t\<close>
  (current_context.hpp is not among the sources), the same guard on the current-context
  slot.
\<close>

definition context_scoped_override ::
    "handle_t \<Rightarrow> (world \<Rightarrow> 'a outcome \<times> world) \<Rightarrow> world \<Rightarrow> 'a outcome \<times> world" where
  "context_scoped_override new_context guarded w =
     (let previous_context = current_context w;
          (r, w') = guarded (w\<lparr>current_context := new_context\<rparr>)
      in case r of
           Terminates \<Rightarrow> (Terminates, w')
         | _ \<Rightarrow> (r, w'\<lparr>current_context := previous_context\<rparr>))"

text \<open>
  Modelled from the spec: guarded regions in general. A region is a sequence of
  statements; a statement is a native call (with the status the driver reports for it,
  checked by \<open>throw_if_error\<close>), an exception raised by the block itself, or a nested
  guard on either slot with its own region. By section 3 the ambient slots are "mutated
  only through scoped-override guards", so there is no statement that writes a slot
  directly. A statement that does not return ends the region it is in.
\<close>

datatype stmt =
    Driver_call driver_call status_t
  | Raise error
  | Device_override id_t "stmt list"
  | Context_override handle_t "stmt list"

fun exec :: "stmt \<Rightarrow> world \<Rightarrow> unit outcome \<times> world"
and exec_block :: "stmt list \<Rightarrow> world \<Rightarrow> unit outcome \<times> world" where
  "exec (Driver_call c result) w = (throw_if_error result, issue c w)"
| "exec (Raise e) w = (Throws e, w)"
| "exec (Device_override d body) w = device_scoped_override d (exec_block body) w"
| "exec (Context_override c body) w = context_scoped_override c (exec_block body) w"
| "exec_block [] w = (Returns (), w)"
| "exec_block (s # ss) w =
     (case exec s w of
        (Returns _, w') \<Rightarrow> exec_block ss w'
      | (r, w') \<Rightarrow> (r, w'))"

section \<open>The proxy types\<close>

text \<open>
  \<open>device_t\<close> holds the device id and nothing else (\<open>accessors\<close> in
  multi_wrapper_impls.hpp asserts \<open>sizeof(device::id_t) == sizeof(device_t)\<close>), so two
  devices are equal exactly when their ids are. The member is \<open>id_\<close> in the source.
\<close>

record device_t =
  device_t_id :: id_t

text \<open>
  Modelled from the spec: \<open>device::get\<close> (device.hpp is not among the sources), the lookup
  of the device proxy for an id.
\<close>

definition device_get :: "id_t \<Rightarrow> device_t" where
  "device_get device_id = \<lparr>device_t_id = device_id\<rparr>"

text \<open>
  Modelled from the spec: \<open>device::current::get\<close> (current_device.hpp is not among the
  sources), the proxy of the ambient current device.
\<close>

definition device_current_get :: "world \<Rightarrow> device_t" where
  "device_current_get w = device_get (current_device w)"

text \<open>
  \<open>kernel_t\<close>: kernel.hpp declares the members \<open>device_id_\<close>, \<open>context_handle_\<close> and
  \<open>handle_\<close>; multi_wrapper_impls.hpp reads the function pointer \<open>ptr_\<close> (and \<open>ptr()\<close>) of
  the same class.
\<close>

record kernel_t =
  kernel_device_id :: id_t
  kernel_context_handle :: handle_t
  kernel_handle :: handle_t
  kernel_ptr :: handle_t

text \<open>\<open>stream_t\<close> and \<open>event_t\<close>: the members read by multi_wrapper_impls.hpp.\<close>

record stream_t =
  stream_device_id :: id_t
  stream_handle :: handle_t
  stream_owning :: bool

record event_t =
  event_device_id :: id_t
  event_handle :: handle_t

text \<open>
  Modelled from the spec: \<open>stream::default_stream_handle\<close> and \<open>stream::detail_::wrap\<close>
  (stream.hpp is not among the sources). The default queue of a device is "the handle
  sentinel value", the null handle; \<open>wrap\<close> builds the proxy from its parts, not owning
  unless told to.
\<close>

definition default_stream_handle :: handle_t where
  "default_stream_handle = 0"

definition stream_detail_wrap :: "id_t \<Rightarrow> handle_t \<Rightarrow> bool \<Rightarrow> stream_t" where
  "stream_detail_wrap device_id h take_ownership =
     \<lparr>stream_device_id = device_id, stream_handle = h, stream_owning = take_ownership\<rparr>"

text \<open>\<open>kernel_t::device\<close>, \<open>stream_t::device\<close> and \<open>event_t::device\<close>.\<close>

definition kernel_t_device :: "kernel_t \<Rightarrow> device_t" where
  "kernel_t_device k = device_get (kernel_device_id k)"

definition stream_t_device :: "stream_t \<Rightarrow> device_t" where
  "stream_t_device s = device_get (stream_device_id s)"

definition event_t_device :: "event_t \<Rightarrow> device_t" where
  "event_t_device e = device_get (event_device_id e)"

section \<open>kernel.hpp\<close>

text \<open>\<open>kernel::detail_::get_attribute_in_current_context\<close>.\<close>

definition get_attribute_in_current_context ::
    "driver \<Rightarrow> handle_t \<Rightarrow> attribute_t \<Rightarrow> world \<Rightarrow> attribute_value_t outcome \<times> world" where
  "get_attribute_in_current_context D h attribute w =
     (let (result, attribute_value) = cuFuncGetAttribute D attribute h w
      in and_then (throw_if_error result, issue (CuFuncGetAttribute attribute h) w)
           (\<lambda>_ w'. (Returns attribute_value, w')))"

text \<open>\<open>kernel_t::get_attribute\<close>: the query, under a guard on the kernel's context.\<close>

definition get_attribute ::
    "driver \<Rightarrow> kernel_t \<Rightarrow> attribute_t \<Rightarrow> world \<Rightarrow> attribute_value_t outcome \<times> world" where
  "get_attribute D k attribute w =
     context_scoped_override (kernel_context_handle k)
       (get_attribute_in_current_context D (kernel_handle k) attribute) w"

text \<open>
  \<open>kernel_t::ptx_version\<close> and \<open>kernel_t::binary_compilation_target_architecture\<close>, both
  declared \<open>const noexcept\<close>. \<open>compute_capability_t::from_combined_number\<close> is declared
  in types.hpp, which is not among the sources: it is a parameter.
\<close>

definition ptx_version ::
    "driver \<Rightarrow> (attribute_value_t \<Rightarrow> 'cc) \<Rightarrow> kernel_t \<Rightarrow> world \<Rightarrow> 'cc outcome \<times> world" where
  "ptx_version D from_combined_number k w =
     noexcept (and_then (get_attribute D k CU_FUNC_ATTRIBUTE_PTX_VERSION w)
       (\<lambda>raw_attribute w'. (Returns (from_combined_number raw_attribute), w')))"

definition binary_compilation_target_architecture ::
    "driver \<Rightarrow> (attribute_value_t \<Rightarrow> 'cc) \<Rightarrow> kernel_t \<Rightarrow> world \<Rightarrow> 'cc outcome \<times> world" where
  "binary_compilation_target_architecture D from_combined_number k w =
     noexcept (and_then (get_attribute D k CU_FUNC_ATTRIBUTE_BINARY_VERSION w)
       (\<lambda>raw_attribute w'. (Returns (from_combined_number raw_attribute), w')))"

text \<open>\<open>kernel_t::maximum_threads_per_block\<close>, which is not \<open>noexcept\<close>.\<close>

definition maximum_threads_per_block ::
    "driver \<Rightarrow> kernel_t \<Rightarrow> world \<Rightarrow> 32 word outcome \<times> world" where
  "maximum_threads_per_block D k w = get_attribute D k CU_FUNC_ATTRIBUTE_MAX_THREADS_PER_BLOCK w"

section \<open>multi_wrapper_impls.hpp: kernel methods\<close>

text \<open>\<open>kernel_t::set_attribute\<close>.\<close>

definition set_attribute ::
    "driver \<Rightarrow> kernel_t \<Rightarrow> attribute_t \<Rightarrow> attribute_value_t \<Rightarrow> world \<Rightarrow> unit outcome \<times> world" where
  "set_attribute D k attribute v w =
     device_scoped_override (kernel_device_id k)
       (\<lambda>w1. (throw_if_error (cudaFuncSetAttribute D (kernel_ptr k) attribute v w1),
              issue (CudaFuncSetAttribute (kernel_ptr k) attribute v) w1)) w"

text \<open>
  \<open>kernel_t::set_maximum_dynamic_shared_memory_per_block\<close> (kernel.hpp; it calls
  \<open>set_attribute\<close>). \<open>memory::shared::size_t\<close> is an unsigned integer type declared in
  types.hpp, which is not among the sources: its width is the type parameter \<open>'a\<close>. The
  cast to \<open>attribute_value_t\<close> keeps the low 32 bits (\<^const>\<open>ucast\<close>); the cast back
  converts the signed value, extending its sign (\<^const>\<open>scast\<close>).
\<close>

definition set_maximum_dynamic_shared_memory_per_block ::
    "driver \<Rightarrow> kernel_t \<Rightarrow> 'a::len word \<Rightarrow> world \<Rightarrow> unit outcome \<times> world" where
  "set_maximum_dynamic_shared_memory_per_block D k amount_required_by_kernel w =
     (let amount_required_by_kernel' = (ucast amount_required_by_kernel :: attribute_value_t)
      in if amount_required_by_kernel \<noteq> scast amount_required_by_kernel'
         then (Throws (invalid_argument
                 ''Requested amount of maximum shared memory exceeds the representation range for kernel attribute values''), w)
         else set_attribute D k CU_FUNC_ATTRIBUTE_MAX_DYNAMIC_SHARED_SIZE_BYTES
                amount_required_by_kernel' w)"

text \<open>
  \<open>kernel_t::opt_in_to_extra_dynamic_memory\<close>. The macro \<open>CUDART_VERSION\<close> comes from the
  toolkit's headers and is tested by the preprocessor (\<open>#if CUDART_VERSION >= 9000\<close>): it
  is a parameter, fixed when the program is built. This function stands outside the
  \<open>#if defined(__CUDACC__)\<close> block and is part of every build.
  \<open>cudaFuncAttributeMaxDynamicSharedMemorySize\<close> is the runtime API's name of attribute 8.
\<close>

definition opt_in_to_extra_dynamic_memory ::
    "nat \<Rightarrow> driver \<Rightarrow> kernel_t \<Rightarrow> 'a::len word \<Rightarrow> world \<Rightarrow> unit outcome \<times> world" where
  "opt_in_to_extra_dynamic_memory CUDART_VERSION D k amount_required_by_kernel w =
     device_scoped_override (kernel_device_id k)
       (\<lambda>w1. if 9000 \<le> CUDART_VERSION
              then (throw_if_error (cudaFuncSetAttribute D (kernel_ptr k)
                       CU_FUNC_ATTRIBUTE_MAX_DYNAMIC_SHARED_SIZE_BYTES
                       (ucast amount_required_by_kernel) w1),
                    issue (CudaFuncSetAttribute (kernel_ptr k)
                       CU_FUNC_ATTRIBUTE_MAX_DYNAMIC_SHARED_SIZE_BYTES
                       (ucast amount_required_by_kernel)) w1)
              else (Throws (runtime_error not_yet_implemented), w1)) w"

text \<open>
  The occupancy functions. In the source they stand between \<open>#if defined(__CUDACC__)\<close>
  and its \<open>#endif\<close>: they are part of the program only when it is compiled as CUDA
  code. The parameter \<open>CUDACC\<close> says whether that macro is defined in the build, and the
  result is \<open>None\<close> when the function is not part of the program. \<open>CUDART_VERSION\<close> is
  tested by the preprocessor too (\<open>#if CUDART_VERSION <= 10000\<close>), which keeps one of
  the two bodies. Both parameters are fixed when the program is built: they are facts
  of the build, not values a call reads from the driver.

  \<open>detail_::min_grid_params_for_max_occupancy\<close>, the overload taking a function from
  block size to dynamic shared memory size. The native query receives that function and
  reads its results as \<open>size_t\<close>; its flags argument is one of two constants chosen by
  \<open>disable_caching_override\<close>, and is kept as that boolean. The block size limit and the
  two results change between \<open>unsigned\<close> and \<open>int\<close>, which keeps their 32 bits.
\<close>

definition detail_min_grid_params_for_max_occupancy ::
    "bool \<Rightarrow> nat \<Rightarrow> driver \<Rightarrow> handle_t \<Rightarrow> id_t \<Rightarrow> (64 word \<Rightarrow> 'a::len word) \<Rightarrow> 32 word \<Rightarrow> bool
     \<Rightarrow> world \<Rightarrow> ((32 word \<times> 32 word) outcome \<times> world) option" where
  "detail_min_grid_params_for_max_occupancy CUDACC CUDART_VERSION D ptr device_id
       block_size_to_dynamic_shared_mem_size block_size_limit disable_caching_override w =
     (if \<not> CUDACC then None
      else if CUDART_VERSION \<le> 10000 then Some (Throws (runtime_error not_yet_implemented), w)
      else
        Some
          (let (result, min_grid_size_in_blocks, block_size) =
                 cudaOccupancyMaxPotentialBlockSizeVariableSMemWithFlags D ptr
                   (\<lambda>b. ucast (block_size_to_dynamic_shared_mem_size b))
                   block_size_limit disable_caching_override w
           in and_then
                (throw_if_error result,
                 issue (CudaOccupancyMaxPotentialBlockSizeVariableSMemWithFlags ptr
                   (\<lambda>b. ucast (block_size_to_dynamic_shared_mem_size b))
                   block_size_limit disable_caching_override) w)
                (\<lambda>_ w'. (Returns (min_grid_size_in_blocks, block_size), w'))))"

text \<open>The overload taking a fixed dynamic shared memory size, inside the same \<open>#if\<close>.\<close>

definition detail_min_grid_params_for_max_occupancy_fixed ::
    "bool \<Rightarrow> nat \<Rightarrow> driver \<Rightarrow> handle_t \<Rightarrow> id_t \<Rightarrow> 'a::len word \<Rightarrow> 32 word \<Rightarrow> bool
     \<Rightarrow> world \<Rightarrow> ((32 word \<times> 32 word) outcome \<times> world) option" where
  "detail_min_grid_params_for_max_occupancy_fixed CUDACC CUDART_VERSION D ptr device_id
       dynamic_shared_mem_size block_size_limit disable_caching_override w =
     (if \<not> CUDACC then None
      else
        (let always_need_same_shared_mem_size = (\<lambda>_. dynamic_shared_mem_size)
         in detail_min_grid_params_for_max_occupancy CUDACC CUDART_VERSION D ptr device_id
              always_need_same_shared_mem_size block_size_limit disable_caching_override w))"

text \<open>
  The free function \<open>min_grid_params_for_max_occupancy\<close> on a kernel, and the two members
  \<open>kernel_t::min_grid_params_for_max_occupancy\<close> (fixed size, function), all three inside
  the same \<open>#if\<close>.
\<close>

definition min_grid_params_for_max_occupancy ::
    "bool \<Rightarrow> nat \<Rightarrow> driver \<Rightarrow> kernel_t \<Rightarrow> 'a::len word \<Rightarrow> 32 word \<Rightarrow> bool
     \<Rightarrow> world \<Rightarrow> ((32 word \<times> 32 word) outcome \<times> world) option" where
  "min_grid_params_for_max_occupancy CUDACC CUDART_VERSION D kernel' dynamic_shared_memory_size
       block_size_limit disable_caching_override w =
     (if \<not> CUDACC then None
      else detail_min_grid_params_for_max_occupancy_fixed CUDACC CUDART_VERSION D
             (kernel_ptr kernel') (device_t_id (kernel_t_device kernel'))
             dynamic_shared_memory_size block_size_limit disable_caching_override w)"

definition kernel_t_min_grid_params_for_max_occupancy_fixed ::
    "bool \<Rightarrow> nat \<Rightarrow> driver \<Rightarrow> kernel_t \<Rightarrow> 'a::len word \<Rightarrow> 32 word \<Rightarrow> bool
     \<Rightarrow> world \<Rightarrow> ((32 word \<times> 32 word) outcome \<times> world) option" where
  "kernel_t_min_grid_params_for_max_occupancy_fixed CUDACC CUDART_VERSION D k
       dynamic_shared_memory_size block_size_limit disable_caching_override w =
     (if \<not> CUDACC then None
      else detail_min_grid_params_for_max_occupancy_fixed CUDACC CUDART_VERSION D
             (kernel_ptr k) (kernel_device_id k) dynamic_shared_memory_size
             block_size_limit disable_caching_override w)"

definition kernel_t_min_grid_params_for_max_occupancy ::
    "bool \<Rightarrow> nat \<Rightarrow> driver \<Rightarrow> kernel_t \<Rightarrow> (64 word \<Rightarrow> 'a::len word) \<Rightarrow> 32 word \<Rightarrow> bool
     \<Rightarrow> world \<Rightarrow> ((32 word \<times> 32 word) outcome \<times> world) option" where
  "kernel_t_min_grid_params_for_max_occupancy CUDACC CUDART_VERSION D k
       block_size_to_dynamic_shared_mem_size block_size_limit disable_caching_override w =
     (if \<not> CUDACC then None
      else detail_min_grid_params_for_max_occupancy CUDACC CUDART_VERSION D
             (kernel_ptr k) (kernel_device_id k) block_size_to_dynamic_shared_mem_size
             block_size_limit disable_caching_override w)"

text \<open>
  \<open>kernel_t::set_preferred_shared_mem_fraction\<close>. The percentage is an \<open>unsigned\<close>; the
  guard is declared before the range check.
\<close>

definition set_preferred_shared_mem_fraction ::
    "nat \<Rightarrow> driver \<Rightarrow> kernel_t \<Rightarrow> 32 word \<Rightarrow> world \<Rightarrow> unit outcome \<times> world" where
  "set_preferred_shared_mem_fraction CUDART_VERSION D k shared_mem_percentage w =
     device_scoped_override (kernel_device_id k)
       (\<lambda>w1. if 100 < shared_mem_percentage
              then (Throws (invalid_argument ''Percentage value can't exceed 100''), w1)
              else if 9000 \<le> CUDART_VERSION
              then (throw_if_error (cudaFuncSetAttribute D (kernel_ptr k)
                       CU_FUNC_ATTRIBUTE_PREFERRED_SHARED_MEMORY_CARVEOUT shared_mem_percentage w1),
                    issue (CudaFuncSetAttribute (kernel_ptr k)
                       CU_FUNC_ATTRIBUTE_PREFERRED_SHARED_MEMORY_CARVEOUT shared_mem_percentage) w1)
              else (Throws (runtime_error not_yet_implemented), w1)) w"

section \<open>multi_wrapper_impls.hpp: devices, events and streams\<close>

text \<open>\<open>device_t::default_stream\<close>.\<close>

definition default_stream :: "device_t \<Rightarrow> stream_t" where
  "default_stream device = stream_detail_wrap (device_t_id device) default_stream_handle False"

text \<open>
  \<open>device_t::create_stream\<close>. \<open>stream::detail_::create_on_current_device\<close> is declared in
  stream.hpp, which is not among the sources: it is a parameter.
\<close>

definition create_stream ::
    "(bool \<Rightarrow> int \<Rightarrow> world \<Rightarrow> handle_t outcome \<times> world) \<Rightarrow> device_t \<Rightarrow> bool \<Rightarrow> int \<Rightarrow> world
     \<Rightarrow> stream_t outcome \<times> world" where
  "create_stream create_on_current_device device will_synchronize_with_default_stream priority w =
     device_scoped_override (device_t_id device)
       (\<lambda>w1. and_then (create_on_current_device will_synchronize_with_default_stream priority w1)
                (\<lambda>h w2. (Returns (stream_detail_wrap (device_t_id device) h True), w2))) w"

text \<open>\<open>stream::detail_::record_event_on_current_device\<close>.\<close>

definition record_event_on_current_device ::
    "driver \<Rightarrow> id_t \<Rightarrow> handle_t \<Rightarrow> handle_t \<Rightarrow> world \<Rightarrow> unit outcome \<times> world" where
  "record_event_on_current_device D device_id stream_h event_h w =
     (throw_if_error (cudaEventRecord D event_h stream_h w),
      issue (CudaEventRecord event_h stream_h) w)"

text \<open>
  Modelled from the spec: \<open>event::detail_::enqueue\<close> (event.hpp is not among the sources),
  the driver boundary's "record event" on a queue handle, its status translated by
  \<open>throw_if_error\<close>.
\<close>

definition event_detail_enqueue ::
    "driver \<Rightarrow> handle_t \<Rightarrow> handle_t \<Rightarrow> world \<Rightarrow> unit outcome \<times> world" where
  "event_detail_enqueue D stream_h event_h w =
     (throw_if_error (cudaEventRecord D event_h stream_h w),
      issue (CudaEventRecord event_h stream_h) w)"

text \<open>
  \<open>event_t::record\<close> and \<open>event_t::fire\<close>. \<open>record\<close> passes the two handles to
  \<open>event::detail_::enqueue\<close>, here the parameter \<open>enqueue\<close>; \<open>stream_t::synchronize\<close> is
  the parameter \<open>synchronize\<close>.
\<close>

definition record_event ::
    "(handle_t \<Rightarrow> handle_t \<Rightarrow> world \<Rightarrow> unit outcome \<times> world) \<Rightarrow> event_t \<Rightarrow> stream_t \<Rightarrow> world
     \<Rightarrow> unit outcome \<times> world" where
  "record_event enqueue ev stream w = enqueue (stream_handle stream) (event_handle ev) w"

definition fire ::
    "(handle_t \<Rightarrow> handle_t \<Rightarrow> world \<Rightarrow> unit outcome \<times> world)
     \<Rightarrow> (stream_t \<Rightarrow> world \<Rightarrow> unit outcome \<times> world) \<Rightarrow> event_t \<Rightarrow> stream_t \<Rightarrow> world
     \<Rightarrow> unit outcome \<times> world" where
  "fire enqueue synchronize ev stream w =
     and_then (record_event enqueue ev stream w) (\<lambda>_ w'. synchronize stream w')"

text \<open>
  \<open>stream_t::enqueue_t::event(event_t&)\<close>. \<open>device::detail_::identify\<close>, which names a
  device in a message, is declared outside the sources: it is the parameter \<open>identify\<close>.
\<close>

definition enqueue_event ::
    "(id_t \<Rightarrow> string) \<Rightarrow> driver \<Rightarrow> stream_t \<Rightarrow> event_t \<Rightarrow> world \<Rightarrow> event_t outcome \<times> world" where
  "enqueue_event identify D associated_stream existing_event w =
     (let device_id = stream_device_id associated_stream
      in if event_device_id existing_event \<noteq> device_id
         then (Throws (invalid_argument
                 (''Attempt to enqueue a CUDA event associated with ''
                  @ identify (event_device_id existing_event)
                  @ '' to be triggered by a stream on '' @ identify device_id)), w)
         else device_scoped_override device_id
                (\<lambda>w1. and_then
                   (record_event_on_current_device D device_id
                      (stream_handle associated_stream) (event_handle existing_event) w1)
                   (\<lambda>_ w2. (Returns existing_event, w2))) w)"

section \<open>multi_wrapper_impls.hpp: launching\<close>

text \<open>
  A launch target is a wrapped kernel or a raw function pointer; which one is decided
  by the static type \<open>Kernel\<close> of the argument.
\<close>

datatype launch_target = Wrapped kernel_t | Raw handle_t

text \<open>
  Modelled from the spec: the raw-launch path \<open>detail_::enqueue_launch(function, stream
  handle, configuration, parameters...)\<close> (kernel_launch.hpp is not among the sources),
  which forwards to "the driver's asynchronous launch primitive". The functions below
  take the raw-launch path as the parameter \<open>raw_enqueue_launch\<close>; this instance is used
  for concrete runs. The log keeps the function pointer and the stream handle.
\<close>

definition native_enqueue_launch ::
    "driver \<Rightarrow> handle_t \<Rightarrow> handle_t \<Rightarrow> 'c \<Rightarrow> 'p \<Rightarrow> world \<Rightarrow> unit outcome \<times> world" where
  "native_enqueue_launch D kernel_function stream_h launch_configuration parameters w =
     (throw_if_error (cudaLaunchKernel D kernel_function stream_h w),
      issue (CudaLaunchKernel kernel_function stream_h) w)"

text \<open>\<open>detail_::enqueue_launch\<close>, the overload for a wrapped kernel (\<open>::std::true_type\<close>).\<close>

definition detail_enqueue_launch_wrapped ::
    "(id_t \<Rightarrow> string) \<Rightarrow> (handle_t \<Rightarrow> handle_t \<Rightarrow> 'c \<Rightarrow> 'p \<Rightarrow> world \<Rightarrow> unit outcome \<times> world)
     \<Rightarrow> kernel_t \<Rightarrow> stream_t \<Rightarrow> 'c \<Rightarrow> 'p \<Rightarrow> world \<Rightarrow> unit outcome \<times> world" where
  "detail_enqueue_launch_wrapped identify raw_enqueue_launch kernel' stream
       launch_configuration parameters w =
     (if kernel_t_device kernel' \<noteq> stream_t_device stream
      then (Throws (invalid_argument
              (''Attempt to enqueue a kernel for ''
               @ identify (device_t_id (kernel_t_device kernel')) @ '' on a stream for ''
               @ ''device '' @ identify (device_t_id (stream_t_device stream)))), w)
      else
        (let unwrapped_kernel_function = kernel_ptr kernel'
         in raw_enqueue_launch unwrapped_kernel_function (stream_handle stream)
              launch_configuration parameters w))"

text \<open>\<open>detail_::enqueue_launch\<close>, the overload for a raw function (\<open>::std::false_type\<close>).\<close>

definition detail_enqueue_launch_raw ::
    "(handle_t \<Rightarrow> handle_t \<Rightarrow> 'c \<Rightarrow> 'p \<Rightarrow> world \<Rightarrow> unit outcome \<times> world)
     \<Rightarrow> handle_t \<Rightarrow> stream_t \<Rightarrow> 'c \<Rightarrow> 'p \<Rightarrow> world \<Rightarrow> unit outcome \<times> world" where
  "detail_enqueue_launch_raw raw_enqueue_launch kernel_function stream
       launch_configuration parameters w =
     raw_enqueue_launch kernel_function (stream_handle stream) launch_configuration parameters w"

text \<open>The public \<open>enqueue_launch\<close>, dispatching on the kind of target.\<close>

definition enqueue_launch ::
    "(id_t \<Rightarrow> string) \<Rightarrow> (handle_t \<Rightarrow> handle_t \<Rightarrow> 'c \<Rightarrow> 'p \<Rightarrow> world \<Rightarrow> unit outcome \<times> world)
     \<Rightarrow> launch_target \<Rightarrow> stream_t \<Rightarrow> 'c \<Rightarrow> 'p \<Rightarrow> world \<Rightarrow> unit outcome \<times> world" where
  "enqueue_launch identify raw_enqueue_launch kernel' stream launch_configuration parameters w =
     (case kernel' of
        Wrapped k \<Rightarrow>
          detail_enqueue_launch_wrapped identify raw_enqueue_launch k stream
            launch_configuration parameters w
      | Raw kernel_function \<Rightarrow>
          detail_enqueue_launch_raw raw_enqueue_launch kernel_function stream
            launch_configuration parameters w)"

text \<open>\<open>detail_::get_implicit_device\<close>, with its specialisation for \<open>kernel_t\<close>.\<close>

definition get_implicit_device :: "launch_target \<Rightarrow> world \<Rightarrow> device_t" where
  "get_implicit_device kernel' w =
     (case kernel' of
        Wrapped k \<Rightarrow> kernel_t_device k
      | Raw _ \<Rightarrow> device_current_get w)"

text \<open>\<open>launch\<close>.\<close>

definition launch ::
    "(id_t \<Rightarrow> string) \<Rightarrow> (handle_t \<Rightarrow> handle_t \<Rightarrow> 'c \<Rightarrow> 'p \<Rightarrow> world \<Rightarrow> unit outcome \<times> world)
     \<Rightarrow> launch_target \<Rightarrow> 'c \<Rightarrow> 'p \<Rightarrow> world \<Rightarrow> unit outcome \<times> world" where
  "launch identify raw_enqueue_launch kernel' launch_configuration parameters w =
     (let device = get_implicit_device kernel' w;
          stream = default_stream device
      in enqueue_launch identify raw_enqueue_launch kernel' stream
           launch_configuration parameters w)"

section \<open>miscellany.hpp\<close>

text \<open>
  \<open>device::count()\<close>. The driver's answer is the status and the value left in
  \<open>device_count\<close> after the call.
\<close>

definition count :: "driver \<Rightarrow> world \<Rightarrow> id_t outcome \<times> world" where
  "count D w =
     (let (result, device_count) = cudaGetDeviceCount D w;
          w' = issue CudaGetDeviceCount w
      in if result = no_device then (Returns 0, w')
         else and_then (throw_if_error result, w')
                (\<lambda>_ w''. if device_count < 0
                         then (Throws (logic_error
                                 ''cudaGetDeviceCount() reports an invalid number of CUDA devices''), w'')
                         else (Returns device_count, w'')))"

section \<open>Concrete inputs\<close>

text \<open>A world with device 0 and context 0 current and nothing issued yet.\<close>

definition w0 :: world where
  "w0 = \<lparr>current_device = 0, current_context = 0, issued = []\<rparr>"

text \<open>A driver that answers every call with the given status and zero values.\<close>

definition answering :: "status_t \<Rightarrow> driver" where
  "answering s =
     \<lparr>cuFuncGetAttribute = (\<lambda>_ _ _. (s, 0)),
      cudaFuncSetAttribute = (\<lambda>_ _ _ _. s),
      cudaEventRecord = (\<lambda>_ _ _. s),
      cudaGetDeviceCount = (\<lambda>_. (s, 0)),
      cudaOccupancyMaxPotentialBlockSizeVariableSMemWithFlags = (\<lambda>_ _ _ _ _. (s, 0, 0)),
      cudaLaunchKernel = (\<lambda>_ _ _. s)\<rparr>"

text \<open>The same driver, reporting the device count \<open>n\<close>.\<close>

definition counting :: "status_t \<Rightarrow> int \<Rightarrow> driver" where
  "counting s n = (answering s)\<lparr>cudaGetDeviceCount := (\<lambda>_. (s, n))\<rparr>"

text \<open>A kernel on device 1, two streams and two events told apart by their device.\<close>

definition k1 :: kernel_t where
  "k1 = \<lparr>kernel_device_id = 1, kernel_context_handle = 7, kernel_handle = 11, kernel_ptr = 13\<rparr>"

definition stream_on :: "id_t \<Rightarrow> stream_t" where
  "stream_on d = \<lparr>stream_device_id = d, stream_handle = 5, stream_owning = True\<rparr>"

definition event_on :: "id_t \<Rightarrow> event_t" where
  "event_on d = \<lparr>event_device_id = d, event_handle = 9\<rparr>"

text \<open>A naming of the devices 0, 1 and 2 for messages.\<close>

definition identify0 :: "id_t \<Rightarrow> string" where
  "identify0 i =
     ''device '' @ (if i = 0 then ''0'' else if i = 1 then ''1'' else if i = 2 then ''2'' else ''n'')"

text \<open>
  A guarded region with three guards nested in each other, native calls before and
  after the inner guards, and an exception raised in the innermost region.
\<close>

definition nested_region :: stmt where
  "nested_region =
     Device_override 3
       [Driver_call CudaGetDeviceCount success,
        Context_override 5
          [Device_override 4
             [Driver_call (CudaEventRecord 9 5) success, Raise (logic_error ''failed'')],
           Driver_call CudaGetDeviceCount success],
        Driver_call CudaGetDeviceCount success]"

text \<open>
  A driver whose occupancy query succeeds and answers with the shared memory size the
  given function yields for 256 threads, and the block size limit.
\<close>

definition occupancy_driver :: driver where
  "occupancy_driver =
     (answering success)\<lparr>cudaOccupancyMaxPotentialBlockSizeVariableSMemWithFlags :=
        (\<lambda>ptr f block_size_limit flag w. (success, ucast (f 256), block_size_limit))\<rparr>"

text \<open>A kernel that needs one byte of dynamic shared memory for each thread of a block.\<close>

definition one_byte_per_thread :: "64 word \<Rightarrow> 32 word" where
  "one_byte_per_thread block_size = ucast block_size"

section \<open>Guards: basic facts\<close>

lemma issue_ambient:
  "current_device (issue c w) = current_device w"
  "current_context (issue c w) = current_context w"
  by (simp_all add: issue_def)

lemma throw_if_error_not_Terminates: "throw_if_error s \<noteq> Terminates"
  by (simp add: throw_if_error_def)

lemma and_then_not_Terminates:
  "fst m \<noteq> Terminates \<Longrightarrow> (\<And>x w'. fst (f x w') \<noteq> Terminates)
   \<Longrightarrow> fst (and_then m f) \<noteq> Terminates"
  by (cases m; cases "fst m"; simp add: and_then_def)

text \<open>
  A guard whose region does not terminate the process puts back the value it found, and
  passes on the outcome, the other slot and the log of its region.
\<close>

lemma device_scoped_override_restores:
  assumes "fst (guarded (w\<lparr>current_device := d\<rparr>)) \<noteq> Terminates"
  shows "current_device (snd (device_scoped_override d guarded w)) = current_device w"
    and "fst (device_scoped_override d guarded w) = fst (guarded (w\<lparr>current_device := d\<rparr>))"
    and "current_context (snd (device_scoped_override d guarded w))
         = current_context (snd (guarded (w\<lparr>current_device := d\<rparr>)))"
    and "issued (snd (device_scoped_override d guarded w))
         = issued (snd (guarded (w\<lparr>current_device := d\<rparr>)))"
  using assms
  by (cases "guarded (w\<lparr>current_device := d\<rparr>)";
      cases "fst (guarded (w\<lparr>current_device := d\<rparr>))";
      simp add: device_scoped_override_def)+

lemma context_scoped_override_restores:
  assumes "fst (guarded (w\<lparr>current_context := c\<rparr>)) \<noteq> Terminates"
  shows "current_context (snd (context_scoped_override c guarded w)) = current_context w"
    and "fst (context_scoped_override c guarded w) = fst (guarded (w\<lparr>current_context := c\<rparr>))"
    and "current_device (snd (context_scoped_override c guarded w))
         = current_device (snd (guarded (w\<lparr>current_context := c\<rparr>)))"
    and "issued (snd (context_scoped_override c guarded w))
         = issued (snd (guarded (w\<lparr>current_context := c\<rparr>)))"
  using assms
  by (cases "guarded (w\<lparr>current_context := c\<rparr>)";
      cases "fst (guarded (w\<lparr>current_context := c\<rparr>))";
      simp add: context_scoped_override_def)+

text \<open>No statement of a guarded region terminates the process: it returns or it throws.\<close>

lemma exec_not_Terminates:
  "fst (exec s w) \<noteq> Terminates"
  "fst (exec_block ss w) \<noteq> Terminates"
proof (induction s w and ss w rule: exec_exec_block.induct)
  case (1 c result w)
  then show ?case by (simp add: throw_if_error_not_Terminates)
next
  case (3 d body w)
  then show ?case by (simp add: device_scoped_override_restores(2))
next
  case (4 c body w)
  then show ?case by (simp add: context_scoped_override_restores(2))
next
  case (6 s ss w)
  then show ?case by (cases "exec s w"; cases "fst (exec s w)"; simp)
qed simp_all

text \<open>The two uses of a guard cited for the restoring property, in the sources.\<close>

lemma get_attribute_in_current_context_not_Terminates:
  "fst (get_attribute_in_current_context D h attribute w) \<noteq> Terminates"
  by (simp add: get_attribute_in_current_context_def throw_if_error_def and_then_def
        split: prod.splits)

lemma get_attribute_in_current_context_ambient:
  "current_device (snd (get_attribute_in_current_context D h attribute w)) = current_device w"
  "current_context (snd (get_attribute_in_current_context D h attribute w)) = current_context w"
  by (simp_all add: get_attribute_in_current_context_def throw_if_error_def and_then_def
        issue_def split: prod.splits)

lemma get_attribute_restores_ambient:
  "current_context (snd (get_attribute D k attribute w)) = current_context w"
  "current_device (snd (get_attribute D k attribute w)) = current_device w"
  by (simp_all add: get_attribute_def get_attribute_in_current_context_ambient
        context_scoped_override_restores [OF get_attribute_in_current_context_not_Terminates])

lemma create_stream_restores_device:
  "fst (create_on_current_device sync priority (w\<lparr>current_device := device_t_id device\<rparr>))
     \<noteq> Terminates
   \<Longrightarrow> current_device (snd (create_stream create_on_current_device device sync priority w))
       = current_device w"
  unfolding create_stream_def
  by (rule device_scoped_override_restores(1)) (simp add: and_then_not_Terminates)

section \<open>Nested guards restore the ambient state\<close>

text \<open>
  C1. For every guarded statement and every guarded region, that is for every nesting of
  \<open>scoped_override\<close> entries and exits on either ambient slot, with native calls that
  may fail and exceptions raised anywhere inside, both the current device and the
  current context are the same after the statement (the region) as before it. Every
  guard at every depth is itself such a statement, so the value after its exit is the
  value before its entry. And each guard by itself, around any region whatever that
  does not terminate the process (returning or throwing), puts back exactly the value
  of its slot that it replaced.
\<close>

theorem scoped_override_restores_ambient:
  "current_device (snd (exec s w)) = current_device w
   \<and> current_context (snd (exec s w)) = current_context w
   \<and> current_device (snd (exec_block ss w)) = current_device w
   \<and> current_context (snd (exec_block ss w)) = current_context w
   \<and> (fst (region (w\<lparr>current_device := d\<rparr>)) \<noteq> Terminates \<longrightarrow>
        current_device (snd (device_scoped_override d region w)) = current_device w)
   \<and> (fst (region (w\<lparr>current_context := c\<rparr>)) \<noteq> Terminates \<longrightarrow>
        current_context (snd (context_scoped_override c region w)) = current_context w)"
proof -
  have "current_device (snd (exec s w)) = current_device w
        \<and> current_context (snd (exec s w)) = current_context w"
    and "current_device (snd (exec_block ss w)) = current_device w
        \<and> current_context (snd (exec_block ss w)) = current_context w"
  proof (induction s w and ss w rule: exec_exec_block.induct)
    case (1 c result w)
    then show ?case by (simp add: issue_ambient)
  next
    case (3 d body w)
    then show ?case
      by (simp add: device_scoped_override_restores [OF exec_not_Terminates(2)])
  next
    case (4 c body w)
    then show ?case
      by (simp add: context_scoped_override_restores [OF exec_not_Terminates(2)])
  next
    case (6 s ss w)
    then show ?case by (cases "exec s w"; cases "fst (exec s w)"; simp)
  qed simp_all
  then show ?thesis
    by (simp add: device_scoped_override_restores(1) context_scoped_override_restores(1))
qed

theorem scoped_override_restores_ambient_witness:
  "exec nested_region w0
     = (Throws (logic_error ''failed''), w0\<lparr>issued := [CudaGetDeviceCount, CudaEventRecord 9 5]\<rparr>)
   \<and> current_device (snd (exec nested_region w0)) = current_device w0
   \<and> current_context (snd (exec nested_region w0)) = current_context w0
   \<and> fst (exec_block [Raise (logic_error ''failed'')] (w0\<lparr>current_device := 4\<rparr>)) \<noteq> Terminates
   \<and> current_device (snd (device_scoped_override 4 (exec_block [Raise (logic_error ''failed'')]) w0))
       = current_device w0
   \<and> fst (exec_block [Raise (logic_error ''failed'')] (w0\<lparr>current_context := 5\<rparr>)) \<noteq> Terminates
   \<and> current_context (snd (context_scoped_override 5 (exec_block [Raise (logic_error ''failed'')]) w0))
       = current_context w0"
proof -
  note R = scoped_override_restores_ambient
             [of nested_region w0 "[]" "exec_block [Raise (logic_error ''failed'')]" 4 5]
  have run: "exec nested_region w0
     = (Throws (logic_error ''failed''), w0\<lparr>issued := [CudaGetDeviceCount, CudaEventRecord 9 5]\<rparr>)"
    by (simp add: nested_region_def w0_def device_scoped_override_def
          context_scoped_override_def throw_if_error_def issue_def)
  have t1: "fst (exec_block [Raise (logic_error ''failed'')] (w0\<lparr>current_device := 4\<rparr>)) \<noteq> Terminates"
    by simp
  have t2: "fst (exec_block [Raise (logic_error ''failed'')] (w0\<lparr>current_context := 5\<rparr>)) \<noteq> Terminates"
    by simp
  show ?thesis using R run t1 t2 by simp
qed

section \<open>Launching a wrapped kernel on a stream\<close>

text \<open>
  C2. \<open>enqueue_launch\<close> with a wrapped kernel and a stream: when the kernel's device id
  differs from the stream's, the result is an \<open>invalid_argument\<close> whose message holds
  the names of both devices, and the world is unchanged whatever the raw-launch path
  is, so the raw-launch path (and with it the native launch call) is not reached; when
  the ids are equal, the result is that of the raw-launch path on the kernel's function
  pointer and the stream's handle, with the same configuration and parameters.
\<close>

theorem enqueue_launch_wrapped_checks_device:
  "(kernel_device_id k \<noteq> stream_device_id s \<longrightarrow>
      enqueue_launch identify raw (Wrapped k) s cfg ps w
        = (Throws (invalid_argument
             (''Attempt to enqueue a kernel for '' @ identify (kernel_device_id k)
              @ '' on a stream for device '' @ identify (stream_device_id s))), w)
      \<and> detail_enqueue_launch_wrapped identify raw k s cfg ps w
        = enqueue_launch identify raw (Wrapped k) s cfg ps w)
   \<and> (kernel_device_id k = stream_device_id s \<longrightarrow>
      enqueue_launch identify raw (Wrapped k) s cfg ps w
        = raw (kernel_ptr k) (stream_handle s) cfg ps w
      \<and> detail_enqueue_launch_wrapped identify raw k s cfg ps w
        = raw (kernel_ptr k) (stream_handle s) cfg ps w)"
  by (simp add: enqueue_launch_def detail_enqueue_launch_wrapped_def kernel_t_device_def
        stream_t_device_def device_get_def)

theorem enqueue_launch_wrapped_checks_device_witness:
  "kernel_device_id k1 \<noteq> stream_device_id (stream_on 2)
   \<and> enqueue_launch identify0 (native_enqueue_launch (answering success)) (Wrapped k1) (stream_on 2)
        () [True] w0
      = (Throws (invalid_argument
           ''Attempt to enqueue a kernel for device 1 on a stream for device device 2''), w0)
   \<and> kernel_device_id k1 = stream_device_id (stream_on 1)
   \<and> enqueue_launch identify0 (native_enqueue_launch (answering success)) (Wrapped k1) (stream_on 1)
        () [True] w0
      = (Returns (), w0\<lparr>issued := [CudaLaunchKernel 13 5]\<rparr>)"
  using enqueue_launch_wrapped_checks_device
          [of k1 "stream_on 2" identify0 "native_enqueue_launch (answering success)" "()" "[True]" w0]
        enqueue_launch_wrapped_checks_device
          [of k1 "stream_on 1" identify0 "native_enqueue_launch (answering success)" "()" "[True]" w0]
  by (simp add: k1_def stream_on_def identify0_def native_enqueue_launch_def answering_def
        throw_if_error_def issue_def w0_def)

section \<open>The preferred shared memory fraction\<close>

text \<open>
  C3, as stated, at a concrete input: with a toolkit older than 9000 the percentage 50,
  which lies between 0 and 100, is answered with \<open>not_yet_implemented\<close> and no native
  call is issued.
\<close>

theorem set_preferred_fraction_old_toolkit_counterexample:
  "(50 :: 32 word) \<le> 100
   \<and> set_preferred_shared_mem_fraction 8000 (answering success) k1 50 w0
       = (Throws (runtime_error not_yet_implemented), w0)
   \<and> issued (snd (set_preferred_shared_mem_fraction 8000 (answering success) k1 50 w0)) = []"
  by (simp add: set_preferred_shared_mem_fraction_def device_scoped_override_def w0_def k1_def)

text \<open>
  C3, amended. For every percentage above 100, \<open>set_preferred_shared_mem_fraction\<close>
  throws \<open>invalid_argument\<close> and leaves the world as it was: no attribute-set call is
  issued. For every percentage from 0 to 100 the attribute-set call is issued, with the
  percentage as its value and under the kernel's device, when \<open>CUDART_VERSION\<close> is at
  least 9000, and its status decides the outcome; when \<open>CUDART_VERSION\<close> is below 9000
  the operation throws \<open>not_yet_implemented\<close> and issues no call.
\<close>

theorem set_preferred_shared_mem_fraction_checked:
  "(100 < pct \<longrightarrow>
      set_preferred_shared_mem_fraction V D k pct w
        = (Throws (invalid_argument ''Percentage value can't exceed 100''), w))
   \<and> (pct \<le> 100 \<and> 9000 \<le> V \<longrightarrow>
      issued (snd (set_preferred_shared_mem_fraction V D k pct w))
        = issued w @ [CudaFuncSetAttribute (kernel_ptr k)
                        CU_FUNC_ATTRIBUTE_PREFERRED_SHARED_MEMORY_CARVEOUT pct]
      \<and> fst (set_preferred_shared_mem_fraction V D k pct w)
        = throw_if_error (cudaFuncSetAttribute D (kernel_ptr k)
            CU_FUNC_ATTRIBUTE_PREFERRED_SHARED_MEMORY_CARVEOUT pct
            (w\<lparr>current_device := kernel_device_id k\<rparr>)))
   \<and> (pct \<le> 100 \<and> V < 9000 \<longrightarrow>
      set_preferred_shared_mem_fraction V D k pct w
        = (Throws (runtime_error not_yet_implemented), w))"
  by (auto simp: set_preferred_shared_mem_fraction_def device_scoped_override_def
        throw_if_error_def issue_def Let_def)

theorem set_preferred_shared_mem_fraction_checked_witness:
  "(100 :: 32 word) < 101
   \<and> set_preferred_shared_mem_fraction 9000 (answering success) k1 101 w0
       = (Throws (invalid_argument ''Percentage value can't exceed 100''), w0)
   \<and> (100 :: 32 word) \<le> 100
   \<and> set_preferred_shared_mem_fraction 9000 (answering success) k1 100 w0
       = (Returns (), w0\<lparr>issued := [CudaFuncSetAttribute 13
                        CU_FUNC_ATTRIBUTE_PREFERRED_SHARED_MEMORY_CARVEOUT 100]\<rparr>)
   \<and> set_preferred_shared_mem_fraction 8999 (answering success) k1 0 w0
       = (Throws (runtime_error not_yet_implemented), w0)"
  using set_preferred_shared_mem_fraction_checked [of 101 9000 "answering success" k1 w0]
        set_preferred_shared_mem_fraction_checked [of 100 9000 "answering success" k1 w0]
        set_preferred_shared_mem_fraction_checked [of 0 8999 "answering success" k1 w0]
  by (simp add: set_preferred_shared_mem_fraction_def device_scoped_override_def
        throw_if_error_def issue_def answering_def k1_def w0_def)

section \<open>Recording an event on a stream\<close>

text \<open>
  \<open>event_t::record\<close> hands the two handles to the enqueue primitive whatever the device
  ids of the event and the stream are.
\<close>

lemma record_event_forwards:
  "record_event enqueue ev stream w = enqueue (stream_handle stream) (event_handle ev) w"
  by (simp add: record_event_def)

lemma fire_records_first:
  "fire enqueue synchronize ev stream w
     = and_then (enqueue (stream_handle stream) (event_handle ev) w) (\<lambda>_ w'. synchronize stream w')"
  by (simp add: fire_def record_event_def)

text \<open>
  C4. An event of device 0 and a stream of device 1: \<open>event_t::record\<close> compares no
  device ids, so the native record call is issued and the operation returns;
  \<open>stream_t::enqueue_t::event\<close>, on the same event and stream, throws
  \<open>invalid_argument\<close> and issues nothing.
\<close>

theorem record_event_skips_device_check:
  "event_device_id (event_on 0) \<noteq> stream_device_id (stream_on 1)
   \<and> record_event (event_detail_enqueue (answering success)) (event_on 0) (stream_on 1) w0
       = (Returns (), w0\<lparr>issued := [CudaEventRecord 9 5]\<rparr>)
   \<and> enqueue_event identify0 (answering success) (stream_on 1) (event_on 0) w0
       = (Throws (invalid_argument
            ''Attempt to enqueue a CUDA event associated with device 0 to be triggered by a stream on device 1''), w0)"
  by (simp add: record_event_def event_detail_enqueue_def enqueue_event_def event_on_def
        stream_on_def identify0_def answering_def throw_if_error_def issue_def w0_def)

section \<open>Occupancy: fixed size and constant function\<close>

text \<open>
  C5. For every kernel (function pointer), device id, block size limit, caching-override
  flag and dynamic shared memory size \<open>s\<close>, and every function \<open>f\<close> of the block size
  that yields \<open>s\<close> for every block size: \<open>min_grid_params_for_max_occupancy\<close> with the
  fixed size \<open>s\<close> gives the same result (the same pair, the same failure, the same
  native call) as with the function \<open>f\<close>, in every build. This holds for the \<open>detail_\<close>
  overloads, for the two members of \<open>kernel_t\<close>, and for the free function on a kernel.
\<close>

theorem min_grid_params_fixed_same_as_constant_function:
  "(\<forall>b. f b = s) \<longrightarrow>
     detail_min_grid_params_for_max_occupancy_fixed CUDACC V D ptr device_id s lim dco w
       = detail_min_grid_params_for_max_occupancy CUDACC V D ptr device_id f lim dco w
     \<and> kernel_t_min_grid_params_for_max_occupancy_fixed CUDACC V D k s lim dco w
       = kernel_t_min_grid_params_for_max_occupancy CUDACC V D k f lim dco w
     \<and> min_grid_params_for_max_occupancy CUDACC V D k s lim dco w
       = kernel_t_min_grid_params_for_max_occupancy CUDACC V D k f lim dco w"
proof
  assume "\<forall>b. f b = s"
  then have "f = (\<lambda>_. s)" by auto
  then show "detail_min_grid_params_for_max_occupancy_fixed CUDACC V D ptr device_id s lim dco w
       = detail_min_grid_params_for_max_occupancy CUDACC V D ptr device_id f lim dco w
     \<and> kernel_t_min_grid_params_for_max_occupancy_fixed CUDACC V D k s lim dco w
       = kernel_t_min_grid_params_for_max_occupancy CUDACC V D k f lim dco w
     \<and> min_grid_params_for_max_occupancy CUDACC V D k s lim dco w
       = kernel_t_min_grid_params_for_max_occupancy CUDACC V D k f lim dco w"
    by (simp add: detail_min_grid_params_for_max_occupancy_fixed_def
          detail_min_grid_params_for_max_occupancy_def
          kernel_t_min_grid_params_for_max_occupancy_fixed_def
          kernel_t_min_grid_params_for_max_occupancy_def
          min_grid_params_for_max_occupancy_def kernel_t_device_def device_get_def)
qed

theorem min_grid_params_fixed_same_as_constant_function_witness:
  "kernel_t_min_grid_params_for_max_occupancy_fixed True 11000 occupancy_driver k1 (96 :: 32 word) 1024 False w0
     = kernel_t_min_grid_params_for_max_occupancy True 11000 occupancy_driver k1 (\<lambda>b. 96 :: 32 word) 1024 False w0
   \<and> kernel_t_min_grid_params_for_max_occupancy True 11000 occupancy_driver k1 (\<lambda>b. 96 :: 32 word) 1024 False w0
     = Some (Returns (96, 1024),
        w0\<lparr>issued := [CudaOccupancyMaxPotentialBlockSizeVariableSMemWithFlags 13 (\<lambda>b. 96) 1024 False]\<rparr>)"
proof -
  have "kernel_t_min_grid_params_for_max_occupancy_fixed True 11000 occupancy_driver k1 (96 :: 32 word) 1024 False w0
     = kernel_t_min_grid_params_for_max_occupancy True 11000 occupancy_driver k1 (\<lambda>b. 96 :: 32 word) 1024 False w0"
    using min_grid_params_fixed_same_as_constant_function
            [of "\<lambda>b. 96 :: 32 word" 96 True 11000 occupancy_driver 13 1 1024 False w0 k1]
    by simp
  moreover have "kernel_t_min_grid_params_for_max_occupancy True 11000 occupancy_driver k1 (\<lambda>b. 96 :: 32 word) 1024 False w0
     = Some (Returns (96, 1024),
        w0\<lparr>issued := [CudaOccupancyMaxPotentialBlockSizeVariableSMemWithFlags 13 (\<lambda>b. 96) 1024 False]\<rparr>)"
    by (simp add: kernel_t_min_grid_params_for_max_occupancy_def
          detail_min_grid_params_for_max_occupancy_def occupancy_driver_def answering_def
          and_then_def throw_if_error_def issue_def k1_def w0_def)
  ultimately show ?thesis by simp
qed

section \<open>Features gated by the toolkit version\<close>

text \<open>
  C6, as stated, at a concrete input: a build with a host-only compiler
  (\<open>__CUDACC__\<close> not defined) against a toolkit of revision 10000, which lacks the
  occupancy query. No overload of \<open>min_grid_params_for_max_occupancy\<close> is part of that
  program: the operation is absent at compile time, and so it does not fail with
  \<open>not_yet_implemented\<close>.
\<close>

theorem occupancy_absent_under_host_compiler_counterexample:
  "(10000 :: nat) \<le> 10000
   \<and> detail_min_grid_params_for_max_occupancy False 10000 occupancy_driver 13 1
        one_byte_per_thread 1024 False w0 = None
   \<and> detail_min_grid_params_for_max_occupancy False 10000 occupancy_driver 13 1
        one_byte_per_thread 1024 False w0
      \<noteq> Some (Throws (runtime_error not_yet_implemented), w0)
   \<and> detail_min_grid_params_for_max_occupancy_fixed False 10000 occupancy_driver 13 1
        (96 :: 32 word) 1024 False w0 = None
   \<and> kernel_t_min_grid_params_for_max_occupancy False 10000 occupancy_driver k1
        one_byte_per_thread 1024 False w0 = None
   \<and> kernel_t_min_grid_params_for_max_occupancy_fixed False 10000 occupancy_driver k1
        (96 :: 32 word) 1024 False w0 = None
   \<and> min_grid_params_for_max_occupancy False 10000 occupancy_driver k1
        (96 :: 32 word) 1024 False w0 = None"
  by (simp add: detail_min_grid_params_for_max_occupancy_def
        detail_min_grid_params_for_max_occupancy_fixed_def
        kernel_t_min_grid_params_for_max_occupancy_def
        kernel_t_min_grid_params_for_max_occupancy_fixed_def
        min_grid_params_for_max_occupancy_def)

text \<open>
  C6, amended. The gate is the preprocessor's, on the facts of the build. In a program
  compiled as CUDA code against a toolkit with \<open>CUDART_VERSION\<close> at most 10000, every
  overload of \<open>min_grid_params_for_max_occupancy\<close> is part of the program and every call
  of it throws a \<open>cuda::runtime_error\<close> with the status \<open>not_yet_implemented\<close>, whatever
  the driver would answer: no native call is issued and the world is unchanged. In a
  program built against a toolkit with \<open>CUDART_VERSION\<close> below 9000, every call of
  \<open>opt_in_to_extra_dynamic_memory\<close> does the same, under any compiler. In a program
  compiled with a host-only compiler no overload of the occupancy query is part of the
  program, whatever the toolkit revision.
\<close>

theorem version_gate_fails_not_yet_implemented:
  "(CUDACC \<and> V \<le> 10000 \<longrightarrow>
      detail_min_grid_params_for_max_occupancy CUDACC V D ptr device_id f lim dco w
        = Some (Throws (runtime_error not_yet_implemented), w)
      \<and> detail_min_grid_params_for_max_occupancy_fixed CUDACC V D ptr device_id s lim dco w
        = Some (Throws (runtime_error not_yet_implemented), w)
      \<and> kernel_t_min_grid_params_for_max_occupancy CUDACC V D k f lim dco w
        = Some (Throws (runtime_error not_yet_implemented), w)
      \<and> kernel_t_min_grid_params_for_max_occupancy_fixed CUDACC V D k s lim dco w
        = Some (Throws (runtime_error not_yet_implemented), w)
      \<and> min_grid_params_for_max_occupancy CUDACC V D k s lim dco w
        = Some (Throws (runtime_error not_yet_implemented), w))
   \<and> (V < 9000 \<longrightarrow>
      opt_in_to_extra_dynamic_memory V D k amount w
        = (Throws (runtime_error not_yet_implemented), w))
   \<and> (\<not> CUDACC \<longrightarrow>
      detail_min_grid_params_for_max_occupancy CUDACC V D ptr device_id f lim dco w = None
      \<and> detail_min_grid_params_for_max_occupancy_fixed CUDACC V D ptr device_id s lim dco w = None
      \<and> kernel_t_min_grid_params_for_max_occupancy CUDACC V D k f lim dco w = None
      \<and> kernel_t_min_grid_params_for_max_occupancy_fixed CUDACC V D k s lim dco w = None
      \<and> min_grid_params_for_max_occupancy CUDACC V D k s lim dco w = None)"
  by (simp add: detail_min_grid_params_for_max_occupancy_def
        detail_min_grid_params_for_max_occupancy_fixed_def
        kernel_t_min_grid_params_for_max_occupancy_def
        kernel_t_min_grid_params_for_max_occupancy_fixed_def
        min_grid_params_for_max_occupancy_def
        opt_in_to_extra_dynamic_memory_def device_scoped_override_def)

theorem version_gate_fails_not_yet_implemented_witness:
  "(10000 :: nat) \<le> 10000
   \<and> detail_min_grid_params_for_max_occupancy True 10000 occupancy_driver 13 1
        (\<lambda>b. ucast b :: 32 word) 1024 False w0
       = Some (Throws (runtime_error not_yet_implemented), w0)
   \<and> detail_min_grid_params_for_max_occupancy_fixed True 10000 occupancy_driver 13 1
        (96 :: 32 word) 1024 False w0
       = Some (Throws (runtime_error not_yet_implemented), w0)
   \<and> min_grid_params_for_max_occupancy True 10000 occupancy_driver k1 (96 :: 32 word) 1024 False w0
       = Some (Throws (runtime_error not_yet_implemented), w0)
   \<and> (8999 :: nat) < 9000
   \<and> opt_in_to_extra_dynamic_memory 8999 (answering success) k1 (96 :: 32 word) w0
       = (Throws (runtime_error not_yet_implemented), w0)
   \<and> detail_min_grid_params_for_max_occupancy False 11000 occupancy_driver 13 1
        (\<lambda>b. ucast b :: 32 word) 1024 False w0 = None"
  using version_gate_fails_not_yet_implemented
          [of True 10000 occupancy_driver 13 1 "\<lambda>b. ucast b :: 32 word" 1024 False w0
              "96 :: 32 word" k1 "96 :: 32 word"]
        version_gate_fails_not_yet_implemented
          [of True 8999 "answering success" 13 1 "\<lambda>b. ucast b :: 32 word" 1024 False w0
              "96 :: 32 word" k1 "96 :: 32 word"]
        version_gate_fails_not_yet_implemented
          [of False 11000 occupancy_driver 13 1 "\<lambda>b. ucast b :: 32 word" 1024 False w0
              "96 :: 32 word" k1 "96 :: 32 word"]
  by simp

section \<open>The maximum dynamic shared memory\<close>

text \<open>
  What the range check of \<open>set_maximum_dynamic_shared_memory_per_block\<close> decides, for
  every width of \<open>memory::shared::size_t\<close>: the \<open>invalid_argument\<close> is thrown exactly when
  the amount differs from its cast to \<open>attribute_value_t\<close> and back. For a 32-bit
  unsigned amount the two casts give back every value, so the check never rejects.
\<close>

lemma set_attribute_not_invalid_argument:
  "fst (set_attribute D k attribute v w) \<noteq> Throws (invalid_argument msg)"
  by (simp add: set_attribute_def device_scoped_override_def throw_if_error_def)

lemma set_maximum_dynamic_shared_memory_throws_iff:
  "fst (set_maximum_dynamic_shared_memory_per_block D k a w)
     = Throws (invalid_argument
         ''Requested amount of maximum shared memory exceeds the representation range for kernel attribute values'')
   \<longleftrightarrow> scast (ucast a :: attribute_value_t) \<noteq> a"
  using set_attribute_not_invalid_argument [of D k]
  by (auto simp: set_maximum_dynamic_shared_memory_per_block_def Let_def)

lemma set_maximum_dynamic_shared_memory_unsigned_never_rejects:
  "set_maximum_dynamic_shared_memory_per_block D k (a :: 32 word) w
     = set_attribute D k CU_FUNC_ATTRIBUTE_MAX_DYNAMIC_SHARED_SIZE_BYTES a w"
  by (simp add: set_maximum_dynamic_shared_memory_per_block_def)

text \<open>
  C7. Byte counts that the 32-bit signed attribute value cannot represent and that are
  accepted all the same: as a 32-bit unsigned amount, 2147483648 (above the largest
  \<open>int\<close>) comes back from the two casts unchanged, so the attribute-set call is issued,
  with the value -2147483648; as a 64-bit amount, 18446744073709551615 is accepted
  likewise and the call is issued with the value -1. A 64-bit amount of 4294967296 is
  rejected with \<open>invalid_argument\<close> before any call.
\<close>

theorem set_maximum_dynamic_shared_memory_accepts_unrepresentable:
  "2147483647 < uint (0x80000000 :: 32 word)
   \<and> set_maximum_dynamic_shared_memory_per_block (answering success) k1 (0x80000000 :: 32 word) w0
       = (Returns (), w0\<lparr>issued := [CudaFuncSetAttribute 13
                        CU_FUNC_ATTRIBUTE_MAX_DYNAMIC_SHARED_SIZE_BYTES 0x80000000]\<rparr>)
   \<and> sint (0x80000000 :: attribute_value_t) = - 2147483648
   \<and> 2147483647 < uint (0xFFFFFFFFFFFFFFFF :: 64 word)
   \<and> set_maximum_dynamic_shared_memory_per_block (answering success) k1 (0xFFFFFFFFFFFFFFFF :: 64 word) w0
       = (Returns (), w0\<lparr>issued := [CudaFuncSetAttribute 13
                        CU_FUNC_ATTRIBUTE_MAX_DYNAMIC_SHARED_SIZE_BYTES 0xFFFFFFFF]\<rparr>)
   \<and> sint (0xFFFFFFFF :: attribute_value_t) = - 1
   \<and> set_maximum_dynamic_shared_memory_per_block (answering success) k1 (0x100000000 :: 64 word) w0
       = (Throws (invalid_argument
            ''Requested amount of maximum shared memory exceeds the representation range for kernel attribute values''), w0)"
  by (simp add: set_maximum_dynamic_shared_memory_per_block_def set_attribute_def
        device_scoped_override_def answering_def throw_if_error_def issue_def k1_def w0_def)

section \<open>Launching on the implicit stream\<close>

text \<open>
  C8. \<open>launch\<close> resolves an implicit device with \<open>get_implicit_device\<close> and is
  \<open>enqueue_launch\<close> on the default stream of that device, with the same target,
  configuration and parameters. For a wrapped kernel the device resolved is the
  kernel's own device; for a raw function it is the ambient current device, the device
  whose id is the current-device slot of the world. The default stream of a device is
  the proxy with that device's id and the default stream handle, not owning. In both
  cases the launch then reaches the raw-launch path with the target's function pointer
  and the default stream handle (for a wrapped kernel the device check of
  \<open>enqueue_launch\<close> passes, the stream being on the kernel's device).
\<close>

theorem launch_resolves_implicit_stream:
  "launch identify raw (Wrapped k) cfg ps w
     = enqueue_launch identify raw (Wrapped k) (default_stream (kernel_t_device k)) cfg ps w
   \<and> launch identify raw (Raw f) cfg ps w
     = enqueue_launch identify raw (Raw f) (default_stream (device_current_get w)) cfg ps w
   \<and> default_stream (kernel_t_device k)
     = \<lparr>stream_device_id = kernel_device_id k, stream_handle = default_stream_handle,
        stream_owning = False\<rparr>
   \<and> default_stream (device_current_get w)
     = \<lparr>stream_device_id = current_device w, stream_handle = default_stream_handle,
        stream_owning = False\<rparr>
   \<and> launch identify raw (Wrapped k) cfg ps w = raw (kernel_ptr k) default_stream_handle cfg ps w
   \<and> launch identify raw (Raw f) cfg ps w = raw f default_stream_handle cfg ps w
   \<and> get_implicit_device (Wrapped k) w = kernel_t_device k
   \<and> get_implicit_device (Raw f) w = device_current_get w
   \<and> kernel_t_device k = \<lparr>device_t_id = kernel_device_id k\<rparr>
   \<and> device_current_get w = \<lparr>device_t_id = current_device w\<rparr>
   \<and> launch identify raw target cfg ps w
     = enqueue_launch identify raw target (default_stream (get_implicit_device target w)) cfg ps w"
proof -
  have general: "launch identify raw target cfg ps w
     = enqueue_launch identify raw target (default_stream (get_implicit_device target w)) cfg ps w"
    by (simp add: launch_def Let_def)
  have rest: "launch identify raw (Wrapped k) cfg ps w
     = enqueue_launch identify raw (Wrapped k) (default_stream (kernel_t_device k)) cfg ps w
   \<and> launch identify raw (Raw f) cfg ps w
     = enqueue_launch identify raw (Raw f) (default_stream (device_current_get w)) cfg ps w
   \<and> default_stream (kernel_t_device k)
     = \<lparr>stream_device_id = kernel_device_id k, stream_handle = default_stream_handle,
        stream_owning = False\<rparr>
   \<and> default_stream (device_current_get w)
     = \<lparr>stream_device_id = current_device w, stream_handle = default_stream_handle,
        stream_owning = False\<rparr>
   \<and> launch identify raw (Wrapped k) cfg ps w = raw (kernel_ptr k) default_stream_handle cfg ps w
   \<and> launch identify raw (Raw f) cfg ps w = raw f default_stream_handle cfg ps w
   \<and> get_implicit_device (Wrapped k) w = kernel_t_device k
   \<and> get_implicit_device (Raw f) w = device_current_get w
   \<and> kernel_t_device k = \<lparr>device_t_id = kernel_device_id k\<rparr>
   \<and> device_current_get w = \<lparr>device_t_id = current_device w\<rparr>"
    by (simp add: launch_def get_implicit_device_def default_stream_def stream_detail_wrap_def
          kernel_t_device_def device_current_get_def device_get_def enqueue_launch_def
          detail_enqueue_launch_wrapped_def detail_enqueue_launch_raw_def stream_t_device_def)
  from rest general show ?thesis by blast
qed

theorem launch_resolves_implicit_stream_witness:
  "launch identify0 (native_enqueue_launch (answering success)) (Wrapped k1) () [True] w0
     = enqueue_launch identify0 (native_enqueue_launch (answering success)) (Wrapped k1)
         \<lparr>stream_device_id = 1, stream_handle = 0, stream_owning = False\<rparr> () [True] w0
   \<and> launch identify0 (native_enqueue_launch (answering success)) (Raw 17) () [True] w0
     = enqueue_launch identify0 (native_enqueue_launch (answering success)) (Raw 17)
         \<lparr>stream_device_id = 0, stream_handle = 0, stream_owning = False\<rparr> () [True] w0
   \<and> launch identify0 (native_enqueue_launch (answering success)) (Wrapped k1) () [True] w0
     = (Returns (), w0\<lparr>issued := [CudaLaunchKernel 13 0]\<rparr>)
   \<and> launch identify0 (native_enqueue_launch (answering success)) (Raw 17) () [True] w0
     = (Returns (), w0\<lparr>issued := [CudaLaunchKernel 17 0]\<rparr>)
   \<and> get_implicit_device (Raw 17) (w0\<lparr>current_device := 3\<rparr>) = \<lparr>device_t_id = 3\<rparr>
   \<and> get_implicit_device (Wrapped k1) (w0\<lparr>current_device := 3\<rparr>) = \<lparr>device_t_id = 1\<rparr>
   \<and> default_stream (get_implicit_device (Raw 17) (w0\<lparr>current_device := 3\<rparr>))
     = \<lparr>stream_device_id = 3, stream_handle = 0, stream_owning = False\<rparr>"
proof -
  note L = launch_resolves_implicit_stream
             [of identify0 "native_enqueue_launch (answering success)" k1 "()" "[True]" w0 17]
  note M = launch_resolves_implicit_stream
             [of identify0 "native_enqueue_launch (answering success)" k1 "()" "[True]"
                 "w0\<lparr>current_device := 3\<rparr>" 17]
  have s1: "default_stream (kernel_t_device k1)
              = \<lparr>stream_device_id = 1, stream_handle = 0, stream_owning = False\<rparr>"
    using L [THEN conjunct2, THEN conjunct2, THEN conjunct1]
    by (simp add: k1_def default_stream_handle_def)
  have s2: "default_stream (device_current_get w0)
              = \<lparr>stream_device_id = 0, stream_handle = 0, stream_owning = False\<rparr>"
    using L [THEN conjunct2, THEN conjunct2, THEN conjunct2, THEN conjunct1]
    by (simp add: w0_def default_stream_handle_def)
  have a: "launch identify0 (native_enqueue_launch (answering success)) (Wrapped k1) () [True] w0
     = enqueue_launch identify0 (native_enqueue_launch (answering success)) (Wrapped k1)
         \<lparr>stream_device_id = 1, stream_handle = 0, stream_owning = False\<rparr> () [True] w0"
    using L [THEN conjunct1] by (simp only: s1)
  have b: "launch identify0 (native_enqueue_launch (answering success)) (Raw 17) () [True] w0
     = enqueue_launch identify0 (native_enqueue_launch (answering success)) (Raw 17)
         \<lparr>stream_device_id = 0, stream_handle = 0, stream_owning = False\<rparr> () [True] w0"
    using L [THEN conjunct2, THEN conjunct1] by (simp only: s2)
  have c: "launch identify0 (native_enqueue_launch (answering success)) (Wrapped k1) () [True] w0
     = (Returns (), w0\<lparr>issued := [CudaLaunchKernel 13 0]\<rparr>)"
    using L [THEN conjunct2, THEN conjunct2, THEN conjunct2, THEN conjunct2, THEN conjunct1]
    by (simp add: k1_def w0_def default_stream_handle_def native_enqueue_launch_def
          answering_def throw_if_error_def issue_def)
  have d: "launch identify0 (native_enqueue_launch (answering success)) (Raw 17) () [True] w0
     = (Returns (), w0\<lparr>issued := [CudaLaunchKernel 17 0]\<rparr>)"
    using L [THEN conjunct2, THEN conjunct2, THEN conjunct2, THEN conjunct2, THEN conjunct2,
             THEN conjunct1]
    by (simp add: w0_def default_stream_handle_def native_enqueue_launch_def
          answering_def throw_if_error_def issue_def)
  note M' = M [THEN conjunct2, THEN conjunct2, THEN conjunct2, THEN conjunct2, THEN conjunct2,
                THEN conjunct2]
  have e: "get_implicit_device (Raw 17) (w0\<lparr>current_device := 3\<rparr>) = \<lparr>device_t_id = 3\<rparr>"
    using M' [THEN conjunct2, THEN conjunct1]
          M' [THEN conjunct2, THEN conjunct2, THEN conjunct2, THEN conjunct1]
    by simp
  have g: "get_implicit_device (Wrapped k1) (w0\<lparr>current_device := 3\<rparr>) = \<lparr>device_t_id = 1\<rparr>"
    using M' [THEN conjunct1] M' [THEN conjunct2, THEN conjunct2, THEN conjunct1]
    by (simp add: k1_def)
  have h: "default_stream (get_implicit_device (Raw 17) (w0\<lparr>current_device := 3\<rparr>))
     = \<lparr>stream_device_id = 3, stream_handle = 0, stream_owning = False\<rparr>"
    using M' [THEN conjunct2, THEN conjunct1]
          M [THEN conjunct2, THEN conjunct2, THEN conjunct2, THEN conjunct1]
    by (simp add: default_stream_handle_def)
  from a b c d e g h show ?thesis by blast
qed

section \<open>Failures of the attribute reads\<close>

text \<open>
  An exception never leaves a \<open>noexcept\<close> function, so \<open>ptx_version\<close> and
  \<open>binary_compilation_target_architecture\<close> throw nothing to their caller.
\<close>

lemma noexcept_never_throws: "fst (noexcept m) \<noteq> Throws e"
  by (cases m; cases "fst m"; simp add: noexcept_def)

lemma ptx_version_never_throws:
  "fst (ptx_version D from_combined_number k w) \<noteq> Throws e"
  "fst (binary_compilation_target_architecture D from_combined_number k w) \<noteq> Throws e"
  by (simp_all add: ptx_version_def binary_compilation_target_architecture_def
        noexcept_never_throws)

text \<open>
  C9. A driver that reports a failure for the attribute query: the query itself throws a
  \<open>cuda::runtime_error\<close> with the driver's status, and \<open>maximum_threads_per_block\<close> passes
  it on to its caller; \<open>ptx_version\<close> and \<open>binary_compilation_target_architecture\<close>, being
  \<open>noexcept\<close>, terminate the process instead.
\<close>

theorem ptx_version_terminates_on_driver_failure:
  "get_attribute_in_current_context (answering (other_status 1)) 11 CU_FUNC_ATTRIBUTE_PTX_VERSION w0
     = (Throws (runtime_error (other_status 1)),
        w0\<lparr>issued := [CuFuncGetAttribute CU_FUNC_ATTRIBUTE_PTX_VERSION 11]\<rparr>)
   \<and> fst (ptx_version (answering (other_status 1)) sint k1 w0) = Terminates
   \<and> fst (binary_compilation_target_architecture (answering (other_status 1)) sint k1 w0)
       = Terminates
   \<and> fst (maximum_threads_per_block (answering (other_status 1)) k1 w0)
       = Throws (runtime_error (other_status 1))"
  by (simp add: ptx_version_def binary_compilation_target_architecture_def
        maximum_threads_per_block_def get_attribute_def get_attribute_in_current_context_def
        context_scoped_override_def noexcept_def and_then_def throw_if_error_def issue_def
        answering_def k1_def w0_def)

section \<open>Device count\<close>

text \<open>
  C10. \<open>device::count()\<close> never returns a negative value. When the driver reports the
  no-device status it returns 0 instead of failing; when the driver reports any other
  non-success status it throws a \<open>cuda::runtime_error\<close> carrying that status; when the
  driver reports success with a negative device count it throws a \<open>logic_error\<close> rather
  than returning the count; and in the remaining case it returns the reported count.
\<close>

theorem count_never_negative:
  "(fst (count D w) = Returns n \<longrightarrow> 0 \<le> n)
   \<and> (fst (cudaGetDeviceCount D w) = no_device \<longrightarrow> fst (count D w) = Returns 0)
   \<and> (fst (cudaGetDeviceCount D w) \<noteq> no_device \<and> fst (cudaGetDeviceCount D w) \<noteq> success
        \<longrightarrow> fst (count D w) = Throws (runtime_error (fst (cudaGetDeviceCount D w))))
   \<and> (fst (cudaGetDeviceCount D w) = success \<and> snd (cudaGetDeviceCount D w) < 0
        \<longrightarrow> fst (count D w)
            = Throws (logic_error ''cudaGetDeviceCount() reports an invalid number of CUDA devices''))
   \<and> (fst (cudaGetDeviceCount D w) = success \<and> 0 \<le> snd (cudaGetDeviceCount D w)
        \<longrightarrow> fst (count D w) = Returns (snd (cudaGetDeviceCount D w)))"
  by (cases "cudaGetDeviceCount D w")
     (auto simp: count_def throw_if_error_def and_then_def Let_def split: if_splits)

theorem count_never_negative_witness:
  "fst (count (counting success 2) w0) = Returns 2 \<and> (0::int) \<le> 2
   \<and> fst (count (counting no_device 7) w0) = Returns 0
   \<and> fst (count (counting (other_status 3) 7) w0) = Throws (runtime_error (other_status 3))
   \<and> fst (count (counting success (- 1)) w0)
       = Throws (logic_error ''cudaGetDeviceCount() reports an invalid number of CUDA devices'')"
  using count_never_negative [of "counting success 2" w0 2]
        count_never_negative [of "counting no_device 7" w0 0]
        count_never_negative [of "counting (other_status 3) 7" w0 0]
        count_never_negative [of "counting success (- 1)" w0 0]
  by (simp add: counting_def answering_def)

end
